theory Spec2Isabelle
  imports Main "HOL-Library.Word"
begin

section \<open>The error values of Error.ipp\<close>

text \<open>
  \<^verbatim>\<open>uintptr_t\<close> is an unsigned machine integer; it is taken 64 bits wide. No result
  below depends on the width.
\<close>

type_synonym uintptr_t = "64 word"

subsection \<open>struct Error\<close>

text \<open>
  The three private members \<^verbatim>\<open>_type\<close>, \<^verbatim>\<open>_details\<close> and \<^verbatim>\<open>_devInfo\<close> (an identifier
  cannot start with an underscore here, so the fields carry the prefix \<open>m\<close>).
  A \<^verbatim>\<open>std::string\<close> is a \<^typ>\<open>string\<close>; a default-initialised one is empty.
\<close>

record Error =
  m_type :: string
  m_details :: string
  m_devInfo :: string

text \<open>\<^verbatim>\<open>Error() noexcept = default;\<close>\<close>

definition Error_default :: Error where
  "Error_default = \<lparr>m_type = [], m_details = [], m_devInfo = []\<rparr>"

text \<open>
  \<^verbatim>\<open>Error(const std::string& details)\<close> and \<^verbatim>\<open>Error(std::string&& details)\<close>: both
  initialise \<^verbatim>\<open>_details\<close> only; the other two members are default-initialised.
\<close>

definition Error_of_details :: "string \<Rightarrow> Error" where
  "Error_of_details details = \<lparr>m_type = [], m_details = details, m_devInfo = []\<rparr>"

text \<open>
  \<^verbatim>\<open>Error(const std::string& type, const std::string& details)\<close> and its rvalue twin.
\<close>

definition Error_of_type_details :: "string \<Rightarrow> string \<Rightarrow> Error" where
  "Error_of_type_details type details = \<lparr>m_type = type, m_details = details, m_devInfo = []\<rparr>"

text \<open>
  \<^verbatim>\<open>GetClassId\<close> returns the address of the static member function \<^verbatim>\<open>Error::Id\<close> as an
  integer. The address is fixed by the linker; it is the parameter \<open>Id_address\<close>
  (\<open>Id\<close> alone is the identity relation of HOL).
\<close>

definition Error_GetClassId :: "uintptr_t \<Rightarrow> Error \<Rightarrow> uintptr_t" where
  "Error_GetClassId Id_address this = Id_address"

text \<open>\<^verbatim>\<open>explicit operator std::string() const { return _details; }\<close>\<close>

definition Error_operator_string :: "Error \<Rightarrow> string" where
  "Error_operator_string this = m_details this"

definition Error_GetType :: "Error \<Rightarrow> string" where
  "Error_GetType this = m_type this"

definition Error_GetDetails :: "Error \<Rightarrow> string" where
  "Error_GetDetails this = m_details this"

definition Error_GetInfo :: "Error \<Rightarrow> string" where
  "Error_GetInfo this = m_devInfo this"

text \<open>
  The mutators assign one member of the object they are called on and return
  \<^verbatim>\<open>*this\<close>, a reference to that object. To speak of the identity of the object, the
  Error objects live in a memory indexed by addresses; a reference is an address, and a
  mutator returns the reference together with the memory after the assignment.
  The lvalue and rvalue overloads assign the same string.
\<close>

type_synonym address = nat

type_synonym Error_memory = "address \<Rightarrow> Error"

definition WithDetails :: "address \<Rightarrow> string \<Rightarrow> Error_memory \<Rightarrow> address \<times> Error_memory" where
  "WithDetails this details mem = (this, mem(this := (mem this)\<lparr>m_details := details\<rparr>))"

definition WithInfo :: "address \<Rightarrow> string \<Rightarrow> Error_memory \<Rightarrow> address \<times> Error_memory" where
  "WithInfo this info mem = (this, mem(this := (mem this)\<lparr>m_devInfo := info\<rparr>))"

subsection \<open>The objects behind an IError pointer\<close>

text \<open>
  \<^verbatim>\<open>IError\<close> is abstract: its five member functions are pure virtual. An object seen
  through an \<^verbatim>\<open>IError\<close> pointer is an \<^verbatim>\<open>Error\<close>, a \<^verbatim>\<open>WrappingError<T>\<close> holding a value
  \<^verbatim>\<open>_err\<close> of type \<^verbatim>\<open>T\<close>, or an object of a class written elsewhere. Of the last kind only
  the name of the class and what its five overrides return for the object are kept; the
  source puts no condition on them.
\<close>

record Other =
  o_class :: string
  o_GetClassId :: uintptr_t
  o_operator_string :: string
  o_GetType :: string
  o_GetDetails :: string
  o_GetInfo :: string

datatype IError_object =
    Error_object Error
  | WrappingError_object WrappingError
  | Other_object Other
and WrappingError =
    WrappingError (err: IError_object)

text \<open>
  The five virtual member functions, dispatched on the class of the object.
  \<^verbatim>\<open>WrappingError<T>\<close> overrides each of them by the call of the same member function on
  \<^verbatim>\<open>_err\<close>.
\<close>

fun GetClassId :: "uintptr_t \<Rightarrow> IError_object \<Rightarrow> uintptr_t"
  and WrappingError_GetClassId :: "uintptr_t \<Rightarrow> WrappingError \<Rightarrow> uintptr_t" where
  "GetClassId Id_address (Error_object e) = Error_GetClassId Id_address e"
| "GetClassId Id_address (WrappingError_object w) = WrappingError_GetClassId Id_address w"
| "GetClassId Id_address (Other_object x) = o_GetClassId x"
| "WrappingError_GetClassId Id_address (WrappingError t) = GetClassId Id_address t"

fun operator_string :: "IError_object \<Rightarrow> string"
  and WrappingError_operator_string :: "WrappingError \<Rightarrow> string" where
  "operator_string (Error_object e) = Error_operator_string e"
| "operator_string (WrappingError_object w) = WrappingError_operator_string w"
| "operator_string (Other_object x) = o_operator_string x"
| "WrappingError_operator_string (WrappingError t) = operator_string t"

fun GetType :: "IError_object \<Rightarrow> string"
  and WrappingError_GetType :: "WrappingError \<Rightarrow> string" where
  "GetType (Error_object e) = Error_GetType e"
| "GetType (WrappingError_object w) = WrappingError_GetType w"
| "GetType (Other_object x) = o_GetType x"
| "WrappingError_GetType (WrappingError t) = GetType t"

fun GetDetails :: "IError_object \<Rightarrow> string"
  and WrappingError_GetDetails :: "WrappingError \<Rightarrow> string" where
  "GetDetails (Error_object e) = Error_GetDetails e"
| "GetDetails (WrappingError_object w) = WrappingError_GetDetails w"
| "GetDetails (Other_object x) = o_GetDetails x"
| "WrappingError_GetDetails (WrappingError t) = GetDetails t"

fun GetInfo :: "IError_object \<Rightarrow> string"
  and WrappingError_GetInfo :: "WrappingError \<Rightarrow> string" where
  "GetInfo (Error_object e) = Error_GetInfo e"
| "GetInfo (WrappingError_object w) = WrappingError_GetInfo w"
| "GetInfo (Other_object x) = o_GetInfo x"
| "WrappingError_GetInfo (WrappingError t) = GetInfo t"

text \<open>\<^verbatim>\<open>explicit WrappingError(T&& err) : _err(std::move(err)) {}\<close>\<close>

definition WrappingError_ctor :: "IError_object \<Rightarrow> WrappingError" where
  "WrappingError_ctor error = WrappingError error"





subsection \<open>References to error values\<close>

text \<open>
  The factories take the error by reference, \<^verbatim>\<open>const E&\<close> or \<^verbatim>\<open>E&&\<close>. The object
  referred to is of class \<^verbatim>\<open>E\<close> or of a class derived from \<^verbatim>\<open>E\<close>. A reference is the part
  of the object that is of class \<^verbatim>\<open>E\<close>, as an object of that class, together with what
  the overrides of the object's own class return when that class is derived from \<^verbatim>\<open>E\<close>
  (\<open>None\<close> when the object is of class \<^verbatim>\<open>E\<close> itself).
\<close>

datatype reference = Reference (static_part: IError_object) (derived: "Other option")

text \<open>
  A virtual call through the reference reaches the object referred to, with the
  overrides of its own class.
\<close>

definition referent :: "reference \<Rightarrow> IError_object" where
  "referent r = (case derived r of None \<Rightarrow> static_part r | Some x \<Rightarrow> Other_object x)"

text \<open>
  Initialising a value of type \<^verbatim>\<open>E\<close> from the reference, as for the by-value parameter
  \<^verbatim>\<open>T t\<close> of the constructor of \<^verbatim>\<open>ErrorWrapper\<close> with \<^verbatim>\<open>T\<close> deduced as \<^verbatim>\<open>E\<close>, calls the
  copy or move constructor of \<^verbatim>\<open>E\<close>: the value is the part of class \<^verbatim>\<open>E\<close>, and what the
  derived class adds or overrides is not in it. The copy and move constructors of
  \<^verbatim>\<open>Error\<close> are the defaulted ones, which copy or move the three strings; those of a
  class written elsewhere are taken to give an object for which the five member
  functions return what they return for the original.
\<close>

definition copy_at_static_type :: "reference \<Rightarrow> IError_object" where
  "copy_at_static_type r = static_part r"

subsection \<open>std::shared_ptr\<close>

text \<open>
  \<^verbatim>\<open>std::make_shared\<close> allocates one block holding the object and the count of the
  owners of the block. A \<^verbatim>\<open>shared_ptr\<close> is the address of a block, or empty (\<open>None\<close>,
  the null pointer). Blocks are allocated at increasing addresses, \<open>brk\<close> being the next
  one, so that a new block is never at the address of an earlier one.
\<close>

record block =
  object :: IError_object
  use_count :: nat

record heap =
  blocks :: "address \<Rightarrow> block option"
  brk :: address

type_synonym shared_ptr = "address option"

definition make_shared :: "IError_object \<Rightarrow> heap \<Rightarrow> shared_ptr \<times> heap" where
  "make_shared x h =
     (Some (brk h),
      h\<lparr>blocks := (blocks h)(brk h \<mapsto> \<lparr>object = x, use_count = 1\<rparr>), brk := Suc (brk h)\<rparr>)"

text \<open>The copy constructor shares the block and counts one owner more.\<close>

definition shared_ptr_copy :: "shared_ptr \<Rightarrow> heap \<Rightarrow> shared_ptr \<times> heap" where
  "shared_ptr_copy p h =
     (case p of
        None \<Rightarrow> (None, h)
      | Some a \<Rightarrow>
          (case blocks h a of
             None \<Rightarrow> (Some a, h)
           | Some b \<Rightarrow> (Some a, h\<lparr>blocks := (blocks h)(a \<mapsto> b\<lparr>use_count := Suc (use_count b)\<rparr>)\<rparr>)))"

text \<open>
  The move constructor takes the address over and leaves the source empty; the count
  does not change. The result is the new pointer and the source after the move.
\<close>

definition shared_ptr_move :: "shared_ptr \<Rightarrow> shared_ptr \<times> shared_ptr" where
  "shared_ptr_move p = (p, None)"

text \<open>The destructor counts one owner less; the last owner frees the block.\<close>

definition shared_ptr_dtor :: "shared_ptr \<Rightarrow> heap \<Rightarrow> heap" where
  "shared_ptr_dtor p h =
     (case p of
        None \<Rightarrow> h
      | Some a \<Rightarrow>
          (case blocks h a of
             None \<Rightarrow> h
           | Some b \<Rightarrow>
               if use_count b \<le> 1 then h\<lparr>blocks := (blocks h)(a := None)\<rparr>
               else h\<lparr>blocks := (blocks h)(a \<mapsto> b\<lparr>use_count := use_count b - 1\<rparr>)\<rparr>))"

text \<open>
  \<^verbatim>\<open>_ptr.get()->\<close> and \<^verbatim>\<open>*_ptr.get()\<close>: the object at the address. Through a null
  pointer, or a pointer to a freed block, the behaviour of the program is undefined;
  the model returns which of the two happened.
\<close>

datatype fault = null_pointer | freed_block

definition dereference :: "heap \<Rightarrow> shared_ptr \<Rightarrow> fault + IError_object" where
  "dereference h p =
     (case p of
        None \<Rightarrow> Inl null_pointer
      | Some a \<Rightarrow> (case blocks h a of None \<Rightarrow> Inl freed_block | Some b \<Rightarrow> Inr (object b)))"

subsection \<open>struct ErrorWrapper\<close>

text \<open>The one member, \<^verbatim>\<open>std::shared_ptr<IError> _ptr\<close>.\<close>

record ErrorWrapper =
  ptr :: shared_ptr

text \<open>
  \<^verbatim>\<open>template<ErrorConcept T> ErrorWrapper(T t) :
     _ptr(std::make_shared<WrappingError<T>>(std::move(t)))\<close>
\<close>

definition ErrorWrapper_ctor :: "IError_object \<Rightarrow> heap \<Rightarrow> ErrorWrapper \<times> heap" where
  "ErrorWrapper_ctor t h =
     (let (p, h') = make_shared (WrappingError_object (WrappingError_ctor t)) h
      in (\<lparr>ptr = p\<rparr>, h'))"

text \<open>
  The struct declares no copy constructor, move constructor or destructor, so it has
  the implicit ones, which copy, move and destroy \<^verbatim>\<open>_ptr\<close>.
\<close>

definition ErrorWrapper_copy :: "ErrorWrapper \<Rightarrow> heap \<Rightarrow> ErrorWrapper \<times> heap" where
  "ErrorWrapper_copy other h = (let (p, h') = shared_ptr_copy (ptr other) h in (\<lparr>ptr = p\<rparr>, h'))"

definition ErrorWrapper_move :: "ErrorWrapper \<Rightarrow> ErrorWrapper \<times> ErrorWrapper" where
  "ErrorWrapper_move other = (let (p, q) = shared_ptr_move (ptr other) in (\<lparr>ptr = p\<rparr>, \<lparr>ptr = q\<rparr>))"

definition ErrorWrapper_dtor :: "ErrorWrapper \<Rightarrow> heap \<Rightarrow> heap" where
  "ErrorWrapper_dtor this h = shared_ptr_dtor (ptr this) h"

text \<open>The five accessors, each a call through \<^verbatim>\<open>_ptr.get()\<close>.\<close>

definition ErrorWrapper_GetClassId :: "uintptr_t \<Rightarrow> heap \<Rightarrow> ErrorWrapper \<Rightarrow> fault + uintptr_t" where
  "ErrorWrapper_GetClassId Id_address h this =
     (case dereference h (ptr this) of Inl f \<Rightarrow> Inl f | Inr x \<Rightarrow> Inr (GetClassId Id_address x))"

definition ErrorWrapper_operator_string :: "heap \<Rightarrow> ErrorWrapper \<Rightarrow> fault + string" where
  "ErrorWrapper_operator_string h this =
     (case dereference h (ptr this) of Inl f \<Rightarrow> Inl f | Inr x \<Rightarrow> Inr (operator_string x))"

definition ErrorWrapper_GetType :: "heap \<Rightarrow> ErrorWrapper \<Rightarrow> fault + string" where
  "ErrorWrapper_GetType h this =
     (case dereference h (ptr this) of Inl f \<Rightarrow> Inl f | Inr x \<Rightarrow> Inr (GetType x))"

definition ErrorWrapper_GetDetails :: "heap \<Rightarrow> ErrorWrapper \<Rightarrow> fault + string" where
  "ErrorWrapper_GetDetails h this =
     (case dereference h (ptr this) of Inl f \<Rightarrow> Inl f | Inr x \<Rightarrow> Inr (GetDetails x))"

definition ErrorWrapper_GetInfo :: "heap \<Rightarrow> ErrorWrapper \<Rightarrow> fault + string" where
  "ErrorWrapper_GetInfo h this =
     (case dereference h (ptr this) of Inl f \<Rightarrow> Inl f | Inr x \<Rightarrow> Inr (GetInfo x))"

subsection \<open>OptionalError and the factories\<close>

text \<open>
  \<^verbatim>\<open>using OptionalError = std::optional<ErrorWrapper>\<close> is \<^typ>\<open>ErrorWrapper option\<close>.
  Both overloads of \<^verbatim>\<open>MakeOptionalError\<close> build a temporary \<^verbatim>\<open>ErrorWrapper\<close> from the
  reference \<^verbatim>\<open>error\<close>: the constructor's parameter is a value of type \<^verbatim>\<open>E\<close>, moved or copied
  from the reference at that type. The temporary is moved into the optional and then
  destroyed.
\<close>

type_synonym OptionalError = "ErrorWrapper option"

definition MakeOptionalError :: "reference \<Rightarrow> heap \<Rightarrow> OptionalError \<times> heap" where
  "MakeOptionalError error h =
     (let (tmp, h1) = ErrorWrapper_ctor (copy_at_static_type error) h;
          (val, tmp') = ErrorWrapper_move tmp
      in (Some val, ErrorWrapper_dtor tmp' h1))"

text \<open>\<^verbatim>\<open>inline constexpr auto NoError = std::nullopt;\<close>\<close>

definition NoError :: OptionalError where
  "NoError = None"

text \<open>
  Modelled from the spec: \<^verbatim>\<open>tl::unexpected\<close> and \<^verbatim>\<open>tl::expected\<close>, which expected.ipp
  declares and which is not among the sources. The spec describes the first as the
  failure arm of a result, holding one error handle, and the second as holding either a
  value or one error handle, never both and never neither.
\<close>

datatype 'e unexpected = unexpected (error_of: 'e)

datatype ('t, 'e) expected = expected_value 't | expected_error 'e

type_synonym SuccessResult = "(bool, ErrorWrapper) expected"

text \<open>
  \<^verbatim>\<open>MakeResultError(ErrorWrapper&& error)\<close> moves the handle into the result; the second
  component is the argument after the call.
  \<^verbatim>\<open>MakeResultError(const ErrorWrapper& error)\<close> copies it.
\<close>

definition MakeResultError_rvalue :: "ErrorWrapper \<Rightarrow> SuccessResult \<times> ErrorWrapper" where
  "MakeResultError_rvalue error =
     (let (val, error') = ErrorWrapper_move error in (expected_error val, error'))"

definition MakeResultError_const_ref :: "ErrorWrapper \<Rightarrow> heap \<Rightarrow> SuccessResult \<times> heap" where
  "MakeResultError_const_ref error h =
     (let (val, h') = ErrorWrapper_copy error h in (expected_error val, h'))"

text \<open>
  \<^verbatim>\<open>MakeError(E&& error)\<close> and \<^verbatim>\<open>MakeError(const E& error)\<close> for an error type \<^verbatim>\<open>E\<close>:
  \<^verbatim>\<open>unexpected(ErrorWrapper{ ... })\<close> builds a temporary handle around a value of type
  \<^verbatim>\<open>E\<close>, moved or copied from the reference at that type, and moves the handle into the
  result.
\<close>

definition MakeError :: "reference \<Rightarrow> heap \<Rightarrow> ErrorWrapper unexpected \<times> heap" where
  "MakeError error h =
     (let (tmp, h1) = ErrorWrapper_ctor (copy_at_static_type error) h;
          (val, tmp') = ErrorWrapper_move tmp
      in (unexpected val, ErrorWrapper_dtor tmp' h1))"

text \<open>
  The two explicit specialisations for \<^verbatim>\<open>ErrorWrapper\<close>:
  \<^verbatim>\<open>MakeError(ErrorWrapper&& error) { return unexpected({ std::move(error) }); }\<close> moves
  the handle into the result (the second component is the argument after the call), and
  \<^verbatim>\<open>MakeError(const ErrorWrapper& error) { return unexpected({ error }); }\<close> copies it.
\<close>

definition MakeError_ErrorWrapper_rvalue ::
  "ErrorWrapper \<Rightarrow> ErrorWrapper unexpected \<times> ErrorWrapper" where
  "MakeError_ErrorWrapper_rvalue error =
     (let (val, error') = ErrorWrapper_move error in (unexpected val, error'))"

definition MakeError_ErrorWrapper_const_ref ::
  "ErrorWrapper \<Rightarrow> heap \<Rightarrow> ErrorWrapper unexpected \<times> heap" where
  "MakeError_ErrorWrapper_const_ref error h =
     (let (val, h') = ErrorWrapper_copy error h in (unexpected val, h'))"

subsection \<open>The concept ErrorConcept\<close>

text \<open>
  \<^verbatim>\<open>template <typename T> concept ErrorConcept =
     std::derived_from<T, IError> || std::is_convertible_v<T, IError>;\<close>
  The concept is decided by the compiler from two facts about the type \<^verbatim>\<open>T\<close>, the values
  of the two standard traits. A type is described by these two facts and by the names
  of its public member functions.
\<close>

record type_facts =
  derived_from_IError :: bool
  is_convertible_to_IError :: bool
  member_functions :: "string list"

definition ErrorConcept :: "type_facts \<Rightarrow> bool" where
  "ErrorConcept T = (derived_from_IError T \<or> is_convertible_to_IError T)"

text \<open>The five member functions that \<^verbatim>\<open>IError\<close> declares.\<close>

definition IError_member_functions :: "string list" where
  "IError_member_functions =
     [''GetClassId'', ''operator std::string'', ''GetType'', ''GetDetails'', ''GetInfo'']"

definition exposes_IError_member_functions :: "type_facts \<Rightarrow> bool" where
  "exposes_IError_member_functions T =
     list_all (\<lambda>f. f \<in> set (member_functions T)) IError_member_functions"

subsection \<open>Programs that use handles\<close>

text \<open>
  A program that uses the library holds handles (in variables, optionals and results)
  and a heap. It makes a handle with the template constructor or a factory, copies,
  moves and destroys handles, and passes them to the factories that take a handle.
  The handles alive at a moment are a list; an action names a handle by its position,
  appends the handle it makes, and does nothing when the position names no handle.
\<close>

record program =
  heap_of :: heap
  handles :: "ErrorWrapper list"

datatype action =
    Construct IError_object
  | Copy nat
  | Move nat
  | Destroy nat
  | Call_MakeOptionalError reference
  | Call_MakeError reference
  | Call_MakeError_rvalue nat
  | Call_MakeError_const_ref nat
  | Call_MakeResultError_rvalue nat
  | Call_MakeResultError_const_ref nat

fun handle_of_result :: "SuccessResult \<Rightarrow> ErrorWrapper list" where
  "handle_of_result (expected_value v) = []"
| "handle_of_result (expected_error w) = [w]"

fun handle_of_optional :: "OptionalError \<Rightarrow> ErrorWrapper list" where
  "handle_of_optional None = []"
| "handle_of_optional (Some w) = [w]"

fun step :: "action \<Rightarrow> program \<Rightarrow> program" where
  "step (Construct t) s =
     (let (w, h') = ErrorWrapper_ctor t (heap_of s)
      in \<lparr>heap_of = h', handles = handles s @ [w]\<rparr>)"
| "step (Copy i) s =
     (if i < length (handles s)
      then (let (w, h') = ErrorWrapper_copy (handles s ! i) (heap_of s)
            in \<lparr>heap_of = h', handles = handles s @ [w]\<rparr>)
      else s)"
| "step (Move i) s =
     (if i < length (handles s)
      then (let (w, src) = ErrorWrapper_move (handles s ! i)
            in \<lparr>heap_of = heap_of s, handles = (handles s)[i := src] @ [w]\<rparr>)
      else s)"
| "step (Destroy i) s =
     (if i < length (handles s)
      then \<lparr>heap_of = ErrorWrapper_dtor (handles s ! i) (heap_of s),
            handles = take i (handles s) @ drop (Suc i) (handles s)\<rparr>
      else s)"
| "step (Call_MakeOptionalError e) s =
     (let (r, h') = MakeOptionalError e (heap_of s)
      in \<lparr>heap_of = h', handles = handles s @ handle_of_optional r\<rparr>)"
| "step (Call_MakeError e) s =
     (let (u, h') = MakeError e (heap_of s)
      in \<lparr>heap_of = h', handles = handles s @ [error_of u]\<rparr>)"
| "step (Call_MakeError_rvalue i) s =
     (if i < length (handles s)
      then (let (u, src) = MakeError_ErrorWrapper_rvalue (handles s ! i)
            in \<lparr>heap_of = heap_of s, handles = (handles s)[i := src] @ [error_of u]\<rparr>)
      else s)"
| "step (Call_MakeError_const_ref i) s =
     (if i < length (handles s)
      then (let (u, h') = MakeError_ErrorWrapper_const_ref (handles s ! i) (heap_of s)
            in \<lparr>heap_of = h', handles = handles s @ [error_of u]\<rparr>)
      else s)"
| "step (Call_MakeResultError_rvalue i) s =
     (if i < length (handles s)
      then (let (r, src) = MakeResultError_rvalue (handles s ! i)
            in \<lparr>heap_of = heap_of s, handles = (handles s)[i := src] @ handle_of_result r\<rparr>)
      else s)"
| "step (Call_MakeResultError_const_ref i) s =
     (if i < length (handles s)
      then (let (r, h') = MakeResultError_const_ref (handles s ! i) (heap_of s)
            in \<lparr>heap_of = h', handles = handles s @ handle_of_result r\<rparr>)
      else s)"

text \<open>
  The actions that move a handle: the implicit move constructor, and the two factories
  that take the handle as an rvalue.
\<close>

fun moves :: "action \<Rightarrow> bool" where
  "moves (Move i) = True"
| "moves (Call_MakeError_rvalue i) = True"
| "moves (Call_MakeResultError_rvalue i) = True"
| "moves a = False"

fun run :: "program \<Rightarrow> action list \<Rightarrow> program" where
  "run s [] = s"
| "run s (a # as) = run (step a s) as"

definition start :: program where
  "start = \<lparr>heap_of = \<lparr>blocks = Map.empty, brk = 0\<rparr>, handles = []\<rparr>"

text \<open>
  The number of handles of a list that point to an address, and the agreement of a
  program's heap with its handles: a block exists exactly where some handle points, its
  count is the number of those handles, and no block lies at or beyond \<open>brk\<close>.
\<close>

definition owners :: "address \<Rightarrow> ErrorWrapper list \<Rightarrow> nat" where
  "owners a ws = length (filter (\<lambda>w. ptr w = Some a) ws)"

definition consistent :: "program \<Rightarrow> bool" where
  "consistent s \<longleftrightarrow>
     (\<forall>a. (blocks (heap_of s) a = None \<longrightarrow> owners a (handles s) = 0)
        \<and> (\<forall>b. blocks (heap_of s) a = Some b \<longrightarrow>
               use_count b = owners a (handles s) \<and> 0 < use_count b)
        \<and> (brk (heap_of s) \<le> a \<longrightarrow> blocks (heap_of s) a = None))"

text \<open>
  A handle is counted in a heap when the block it points to, if there is one, has at
  least one owner.
\<close>

definition counted :: "heap \<Rightarrow> ErrorWrapper \<Rightarrow> bool" where
  "counted h w =
     (case ptr w of
        None \<Rightarrow> True
      | Some a \<Rightarrow> (case blocks h a of None \<Rightarrow> True | Some b \<Rightarrow> 0 < use_count b))"

section \<open>Properties\<close>

subsection \<open>Construction, conversion and mutation of Error\<close>

text \<open>
  C4. In every state of an Error, whatever its three strings, the conversion to
  \<^verbatim>\<open>std::string\<close> returns the details member as it is: the result does not change when
  the type or the debug information change, and for the default-constructed Error it is
  the empty string.
\<close>

theorem Error_operator_string_is_details:
  "Error_operator_string \<lparr>m_type = t, m_details = d, m_devInfo = i\<rparr> = d
   \<and> Error_operator_string e = Error_GetDetails e
   \<and> Error_operator_string (e\<lparr>m_type := t', m_devInfo := i'\<rparr>) = Error_operator_string e
   \<and> Error_operator_string Error_default = []"
  by (simp add: Error_operator_string_def Error_GetDetails_def Error_default_def)

text \<open>
  C5. The constructor from a type and details gives back both through \<^verbatim>\<open>GetType\<close> and
  \<^verbatim>\<open>GetDetails\<close>; the constructor from details alone gives the details and an empty
  type; the default constructor gives three empty strings. The constructors are total
  functions of their arguments: no argument is rejected.
\<close>

theorem Error_constructors:
  "Error_GetType (Error_of_type_details t d) = t
   \<and> Error_GetDetails (Error_of_type_details t d) = d
   \<and> Error_GetInfo (Error_of_type_details t d) = []
   \<and> Error_GetDetails (Error_of_details d) = d
   \<and> Error_GetType (Error_of_details d) = []
   \<and> Error_GetInfo (Error_of_details d) = []
   \<and> Error_GetType Error_default = []
   \<and> Error_GetDetails Error_default = []
   \<and> Error_GetInfo Error_default = []"
  by (simp add: Error_GetType_def Error_GetDetails_def Error_GetInfo_def
      Error_of_type_details_def Error_of_details_def Error_default_def)

text \<open>
  C6. \<^verbatim>\<open>WithDetails(a)\<close> followed, on the reference it returns, by \<^verbatim>\<open>WithDetails(b)\<close>:
  both calls return the reference they were called on, the details of the object are
  \<open>b\<close> afterwards, its type and debug information are what they were, and the memory
  differs from the first one in the details of this object only. \<^verbatim>\<open>WithInfo\<close> likewise
  returns the reference it was called on and changes the debug information only.
\<close>

theorem WithDetails_WithInfo_frame:
  "(case WithDetails this a mem of (r1, mem1) \<Rightarrow>
      (case WithDetails r1 b mem1 of (r2, mem2) \<Rightarrow>
         r1 = this \<and> r2 = this
         \<and> Error_GetDetails (mem2 this) = b
         \<and> Error_GetType (mem2 this) = Error_GetType (mem this)
         \<and> Error_GetInfo (mem2 this) = Error_GetInfo (mem this)
         \<and> mem2 = mem(this := (mem this)\<lparr>m_details := b\<rparr>)))
   \<and> (case WithInfo this i mem of (r, mem') \<Rightarrow>
         r = this
         \<and> Error_GetInfo (mem' this) = i
         \<and> Error_GetType (mem' this) = Error_GetType (mem this)
         \<and> Error_GetDetails (mem' this) = Error_GetDetails (mem this)
         \<and> mem' = mem(this := (mem this)\<lparr>m_devInfo := i\<rparr>))"
  by (simp add: WithDetails_def WithInfo_def Error_GetDetails_def Error_GetType_def
      Error_GetInfo_def)

subsection \<open>The adapter\<close>

text \<open>
  C8. For every value \<open>t\<close> of an error type, each of the five member functions of the
  \<^verbatim>\<open>WrappingError\<close> constructed from \<open>t\<close> returns what the same member function of \<open>t\<close>
  returns, and the adapter holds \<open>t\<close> and nothing else.
\<close>

theorem WrappingError_pass_through:
  "WrappingError_GetClassId Id_address (WrappingError_ctor t) = GetClassId Id_address t
   \<and> WrappingError_operator_string (WrappingError_ctor t) = operator_string t
   \<and> WrappingError_GetType (WrappingError_ctor t) = GetType t
   \<and> WrappingError_GetDetails (WrappingError_ctor t) = GetDetails t
   \<and> WrappingError_GetInfo (WrappingError_ctor t) = GetInfo t
   \<and> err (WrappingError_ctor t) = t"
  by (simp add: WrappingError_ctor_def)




subsection \<open>The concept\<close>

text \<open>
  A type that has the five member functions, is not derived from \<^verbatim>\<open>IError\<close> and does not
  convert to it does not satisfy the concept.
\<close>

theorem ErrorConcept_rejects_structural_type:
  "exposes_IError_member_functions
     \<lparr>derived_from_IError = False, is_convertible_to_IError = False,
      member_functions = [''GetClassId'', ''operator std::string'', ''GetType'', ''GetDetails'', ''GetInfo'']\<rparr>
   \<and> \<not> ErrorConcept
     \<lparr>derived_from_IError = False, is_convertible_to_IError = False,
      member_functions = [''GetClassId'', ''operator std::string'', ''GetType'', ''GetDetails'', ''GetInfo'']\<rparr>"
  by (simp add: exposes_IError_member_functions_def IError_member_functions_def ErrorConcept_def)

text \<open>
  C3, amended. The adapter accepts a type when the type is derived from \<^verbatim>\<open>IError\<close> or
  converts to \<^verbatim>\<open>IError\<close>, and rejects a type that does neither; which member functions
  the type has plays no part in it.
\<close>

theorem ErrorConcept_nominal:
  "ErrorConcept (T\<lparr>derived_from_IError := True\<rparr>)
   \<and> ErrorConcept (T\<lparr>is_convertible_to_IError := True\<rparr>)
   \<and> \<not> ErrorConcept (T\<lparr>derived_from_IError := False, is_convertible_to_IError := False\<rparr>)
   \<and> ErrorConcept (T\<lparr>member_functions := fs\<rparr>) = ErrorConcept T"
  by (simp add: ErrorConcept_def)

subsection \<open>Handles and factories\<close>

lemmas accessor_defs = ErrorWrapper_GetClassId_def ErrorWrapper_operator_string_def
  ErrorWrapper_GetType_def ErrorWrapper_GetDetails_def ErrorWrapper_GetInfo_def

lemma ErrorWrapper_ctor_eq:
  "ErrorWrapper_ctor t h =
     (\<lparr>ptr = Some (brk h)\<rparr>,
      h\<lparr>blocks := (blocks h)(brk h \<mapsto> \<lparr>object = WrappingError_object (WrappingError t), use_count = 1\<rparr>),
        brk := Suc (brk h)\<rparr>)"
  by (simp add: ErrorWrapper_ctor_def make_shared_def WrappingError_ctor_def)

lemma ErrorWrapper_move_eq: "ErrorWrapper_move w = (\<lparr>ptr = ptr w\<rparr>, \<lparr>ptr = None\<rparr>)"
  by (simp add: ErrorWrapper_move_def shared_ptr_move_def)

lemma ErrorWrapper_dtor_null: "ErrorWrapper_dtor \<lparr>ptr = None\<rparr> h = h"
  by (simp add: ErrorWrapper_dtor_def shared_ptr_dtor_def)

lemma MakeError_eq:
  "MakeError e h =
     (unexpected (fst (ErrorWrapper_ctor (static_part e) h)), snd (ErrorWrapper_ctor (static_part e) h))"
  by (simp add: MakeError_def copy_at_static_type_def ErrorWrapper_ctor_eq ErrorWrapper_move_eq
      ErrorWrapper_dtor_null)

lemma MakeOptionalError_eq:
  "MakeOptionalError e h =
     (Some (fst (ErrorWrapper_ctor (static_part e) h)), snd (ErrorWrapper_ctor (static_part e) h))"
  by (simp add: MakeOptionalError_def copy_at_static_type_def ErrorWrapper_ctor_eq
      ErrorWrapper_move_eq ErrorWrapper_dtor_null)

lemma MakeError_handle:
  "MakeError e h =
     (unexpected \<lparr>ptr = Some (brk h)\<rparr>,
      h\<lparr>blocks := (blocks h)(brk h \<mapsto>
            \<lparr>object = WrappingError_object (WrappingError (static_part e)), use_count = 1\<rparr>),
        brk := Suc (brk h)\<rparr>)"
  by (simp add: MakeError_eq ErrorWrapper_ctor_eq)

text \<open>
  A class \<^verbatim>\<open>MyError\<close> is derived from \<^verbatim>\<open>Error\<close> and overrides \<^verbatim>\<open>GetClassId\<close> (returning
  8192) and the conversion to a string. An object of it is passed to
  \<^verbatim>\<open>MakeOptionalError\<close> through a reference to \<^verbatim>\<open>Error\<close>. The handle in the result holds
  a copy of the \<^verbatim>\<open>Error\<close> part: through it the conversion returns the details, and the
  tag is the address of \<^verbatim>\<open>Error::Id\<close> (taken to be 4096), while the object itself
  returns the string and the tag of \<^verbatim>\<open>MyError\<close>.
\<close>

theorem MakeOptionalError_of_base_reference:
  "map_option
     (ErrorWrapper_operator_string
        (snd (MakeOptionalError
           (Reference (Error_object \<lparr>m_type = ''io'', m_details = ''disk full'', m_devInfo = []\<rparr>)
              (Some \<lparr>o_class = ''MyError'', o_GetClassId = 8192,
                 o_operator_string = ''io: disk full'', o_GetType = ''io'',
                 o_GetDetails = ''disk full'', o_GetInfo = []\<rparr>))
           (heap_of start))))
     (fst (MakeOptionalError
        (Reference (Error_object \<lparr>m_type = ''io'', m_details = ''disk full'', m_devInfo = []\<rparr>)
           (Some \<lparr>o_class = ''MyError'', o_GetClassId = 8192,
              o_operator_string = ''io: disk full'', o_GetType = ''io'',
              o_GetDetails = ''disk full'', o_GetInfo = []\<rparr>))
        (heap_of start)))
     = Some (Inr ''disk full'')
   \<and> operator_string (referent
        (Reference (Error_object \<lparr>m_type = ''io'', m_details = ''disk full'', m_devInfo = []\<rparr>)
           (Some \<lparr>o_class = ''MyError'', o_GetClassId = 8192,
              o_operator_string = ''io: disk full'', o_GetType = ''io'',
              o_GetDetails = ''disk full'', o_GetInfo = []\<rparr>)))
     = ''io: disk full''
   \<and> map_option
     (ErrorWrapper_GetClassId 4096
        (snd (MakeOptionalError
           (Reference (Error_object \<lparr>m_type = ''io'', m_details = ''disk full'', m_devInfo = []\<rparr>)
              (Some \<lparr>o_class = ''MyError'', o_GetClassId = 8192,
                 o_operator_string = ''io: disk full'', o_GetType = ''io'',
                 o_GetDetails = ''disk full'', o_GetInfo = []\<rparr>))
           (heap_of start))))
     (fst (MakeOptionalError
        (Reference (Error_object \<lparr>m_type = ''io'', m_details = ''disk full'', m_devInfo = []\<rparr>)
           (Some \<lparr>o_class = ''MyError'', o_GetClassId = 8192,
              o_operator_string = ''io: disk full'', o_GetType = ''io'',
              o_GetDetails = ''disk full'', o_GetInfo = []\<rparr>))
        (heap_of start)))
     = Some (Inr 4096)
   \<and> GetClassId 4096 (referent
        (Reference (Error_object \<lparr>m_type = ''io'', m_details = ''disk full'', m_devInfo = []\<rparr>)
           (Some \<lparr>o_class = ''MyError'', o_GetClassId = 8192,
              o_operator_string = ''io: disk full'', o_GetType = ''io'',
              o_GetDetails = ''disk full'', o_GetInfo = []\<rparr>)))
     = 8192"
  by (simp add: MakeOptionalError_eq ErrorWrapper_ctor_eq start_def referent_def
      ErrorWrapper_operator_string_def ErrorWrapper_GetClassId_def dereference_def
      Error_operator_string_def Error_GetClassId_def)

text \<open>
  C7, amended. \<^verbatim>\<open>MakeOptionalError\<close> returns a populated optional, different from
  \<^verbatim>\<open>NoError\<close>, for every reference. Through the handle in it the conversion to a string
  and the other four accessors return what the member functions of \<open>e\<close> return, \<open>e\<close>
  being the value of the reference's static type that the handle is built around. When
  the error value is passed at its own type, \<open>e\<close> is the error value itself; when it is
  passed through a reference to a base class, \<open>e\<close> is the copy of its base part.
  \<^verbatim>\<open>NoError\<close> is the empty optional.
\<close>

theorem MakeOptionalError_populated:
  "(case MakeOptionalError (Reference e d) h of (r, h') \<Rightarrow>
      r \<noteq> NoError
      \<and> (case r of
           None \<Rightarrow> False
         | Some w \<Rightarrow>
             ErrorWrapper_operator_string h' w = Inr (operator_string e)
             \<and> ErrorWrapper_GetClassId Id_address h' w = Inr (GetClassId Id_address e)
             \<and> ErrorWrapper_GetType h' w = Inr (GetType e)
             \<and> ErrorWrapper_GetDetails h' w = Inr (GetDetails e)
             \<and> ErrorWrapper_GetInfo h' w = Inr (GetInfo e)))
   \<and> (case MakeOptionalError (Reference e None) h of (r, h') \<Rightarrow>
      (case r of
         None \<Rightarrow> False
       | Some w \<Rightarrow>
           ErrorWrapper_operator_string h' w = Inr (operator_string (referent (Reference e None)))
           \<and> ErrorWrapper_GetClassId Id_address h' w
               = Inr (GetClassId Id_address (referent (Reference e None)))
           \<and> ErrorWrapper_GetType h' w = Inr (GetType (referent (Reference e None)))
           \<and> ErrorWrapper_GetDetails h' w = Inr (GetDetails (referent (Reference e None)))
           \<and> ErrorWrapper_GetInfo h' w = Inr (GetInfo (referent (Reference e None)))))
   \<and> copy_at_static_type (Reference e d) = e
   \<and> referent (Reference e None) = e
   \<and> NoError = None"
  by (simp add: MakeOptionalError_eq ErrorWrapper_ctor_eq NoError_def accessor_defs dereference_def
      copy_at_static_type_def referent_def)

text \<open>
  C1. Let \<open>u\<close> be the result of \<^verbatim>\<open>MakeError\<close> for an error value, \<open>e\<close> being the value
  that the handle in \<open>u\<close> is built around (the error value itself when it is passed at
  its own type). \<^verbatim>\<open>MakeError\<close> of the handle in \<open>u\<close>, passed as an lvalue, returns a
  handle with the same pointer: no block is allocated, the object behind the pointer is
  the one adapter around \<open>e\<close>, and the five accessors return what they return through the
  handle in \<open>u\<close>. Passed as an rvalue, the handle itself is the one in the result. In
  both cases the accessors return what the member functions of \<open>e\<close> return.
\<close>

theorem MakeError_reuses_handle:
  "(case MakeError (Reference e d) h of (u, h1) \<Rightarrow>
      (case MakeError_ErrorWrapper_const_ref (error_of u) h1 of (u2, h2) \<Rightarrow>
         ptr (error_of u2) = ptr (error_of u)
         \<and> brk h2 = brk h1
         \<and> dereference h2 (ptr (error_of u2)) = Inr (WrappingError_object (WrappingError_ctor e))
         \<and> ErrorWrapper_GetClassId Id_address h2 (error_of u2) = ErrorWrapper_GetClassId Id_address h1 (error_of u)
         \<and> ErrorWrapper_operator_string h2 (error_of u2) = ErrorWrapper_operator_string h1 (error_of u)
         \<and> ErrorWrapper_GetType h2 (error_of u2) = ErrorWrapper_GetType h1 (error_of u)
         \<and> ErrorWrapper_GetDetails h2 (error_of u2) = ErrorWrapper_GetDetails h1 (error_of u)
         \<and> ErrorWrapper_GetInfo h2 (error_of u2) = ErrorWrapper_GetInfo h1 (error_of u))
      \<and> (case MakeError_ErrorWrapper_rvalue (error_of u) of (u3, src) \<Rightarrow>
         error_of u3 = error_of u
         \<and> dereference h1 (ptr (error_of u3)) = Inr (WrappingError_object (WrappingError_ctor e)))
      \<and> ErrorWrapper_GetClassId Id_address h1 (error_of u) = Inr (GetClassId Id_address e)
      \<and> ErrorWrapper_operator_string h1 (error_of u) = Inr (operator_string e)
      \<and> ErrorWrapper_GetType h1 (error_of u) = Inr (GetType e)
      \<and> ErrorWrapper_GetDetails h1 (error_of u) = Inr (GetDetails e)
      \<and> ErrorWrapper_GetInfo h1 (error_of u) = Inr (GetInfo e))
   \<and> referent (Reference e None) = e"
  by (simp add: MakeError_handle MakeError_ErrorWrapper_const_ref_def MakeError_ErrorWrapper_rvalue_def
      ErrorWrapper_copy_def shared_ptr_copy_def ErrorWrapper_move_eq accessor_defs dereference_def
      WrappingError_ctor_def referent_def)

subsection \<open>Copies of a handle\<close>

lemma copy_then_dtor:
  assumes "counted h w"
  shows "(case ErrorWrapper_copy w h of (c, h1) \<Rightarrow>
      ptr c = ptr w
      \<and> dereference (ErrorWrapper_dtor w h1) (ptr c) = dereference h (ptr w)
      \<and> ErrorWrapper_GetClassId Id_address (ErrorWrapper_dtor w h1) c = ErrorWrapper_GetClassId Id_address h w
      \<and> ErrorWrapper_operator_string (ErrorWrapper_dtor w h1) c = ErrorWrapper_operator_string h w
      \<and> ErrorWrapper_GetType (ErrorWrapper_dtor w h1) c = ErrorWrapper_GetType h w
      \<and> ErrorWrapper_GetDetails (ErrorWrapper_dtor w h1) c = ErrorWrapper_GetDetails h w
      \<and> ErrorWrapper_GetInfo (ErrorWrapper_dtor w h1) c = ErrorWrapper_GetInfo h w)"
proof -
  obtain c h1 where eq: "ErrorWrapper_copy w h = (c, h1)"
    by (cases "ErrorWrapper_copy w h")
  have p: "ptr c = ptr w"
    using eq by (auto simp: ErrorWrapper_copy_def shared_ptr_copy_def split: option.splits)
  have d: "dereference (ErrorWrapper_dtor w h1) (ptr w) = dereference h (ptr w)"
    using assms eq
    by (auto simp: counted_def ErrorWrapper_copy_def shared_ptr_copy_def ErrorWrapper_dtor_def
        shared_ptr_dtor_def dereference_def split: option.splits)
  show ?thesis
    by (simp add: eq p d accessor_defs)
qed

subsection \<open>The heap of a program agrees with its handles\<close>

lemma step_Call_MakeOptionalError:
  "step (Call_MakeOptionalError e) s = step (Construct (static_part e)) s"
  by (simp add: MakeOptionalError_eq ErrorWrapper_ctor_eq)

lemma step_Call_MakeError: "step (Call_MakeError e) s = step (Construct (static_part e)) s"
  by (simp add: MakeError_eq ErrorWrapper_ctor_eq)

lemma step_Call_MakeError_rvalue: "step (Call_MakeError_rvalue i) s = step (Move i) s"
  by (simp add: MakeError_ErrorWrapper_rvalue_def ErrorWrapper_move_eq)

lemma step_Call_MakeError_const_ref: "step (Call_MakeError_const_ref i) s = step (Copy i) s"
  by (simp add: MakeError_ErrorWrapper_const_ref_def split: prod.splits)

lemma step_Call_MakeResultError_rvalue: "step (Call_MakeResultError_rvalue i) s = step (Move i) s"
  by (simp add: MakeResultError_rvalue_def ErrorWrapper_move_eq)

lemma step_Call_MakeResultError_const_ref:
  "step (Call_MakeResultError_const_ref i) s = step (Copy i) s"
  by (simp add: MakeResultError_const_ref_def split: prod.splits)

lemma owners_append: "owners a (xs @ ys) = owners a xs + owners a ys"
  by (simp add: owners_def)

lemma owners_single: "owners a [w] = (if ptr w = Some a then 1 else 0)"
  by (simp add: owners_def)

lemma owners_split:
  assumes "i < length ws"
  shows "owners a ws = owners a (take i ws) + owners a [ws ! i] + owners a (drop (Suc i) ws)"
proof -
  have "ws = take i ws @ [ws ! i] @ drop (Suc i) ws"
    using assms by (simp add: id_take_nth_drop)
  then have "owners a ws = owners a (take i ws @ [ws ! i] @ drop (Suc i) ws)"
    by simp
  then show ?thesis
    by (simp only: owners_append)
qed

lemma owners_update:
  assumes "i < length ws"
  shows "owners a (ws[i := x]) = owners a (take i ws) + owners a [x] + owners a (drop (Suc i) ws)"
proof -
  have "ws[i := x] = take i ws @ [x] @ drop (Suc i) ws"
    using assms by (simp add: upd_conv_take_nth_drop)
  then show ?thesis
    by (simp only: owners_append)
qed

lemma owners_pos:
  assumes "w \<in> set ws" and "ptr w = Some a"
  shows "0 < owners a ws"
  using assms by (auto simp: owners_def filter_empty_conv)

lemma consistent_start: "consistent start"
  by (simp add: consistent_def start_def owners_def)

lemma consistentI:
  assumes "\<And>a. blocks (heap_of s) a = None \<Longrightarrow> owners a (handles s) = 0"
    and "\<And>a b. blocks (heap_of s) a = Some b \<Longrightarrow> use_count b = owners a (handles s)"
    and "\<And>a b. blocks (heap_of s) a = Some b \<Longrightarrow> 0 < use_count b"
    and "\<And>a. brk (heap_of s) \<le> a \<Longrightarrow> blocks (heap_of s) a = None"
  shows "consistent s"
  using assms by (simp add: consistent_def)

lemma consistent_free:
  "consistent s \<Longrightarrow> blocks (heap_of s) a = None \<Longrightarrow> owners a (handles s) = 0"
  by (simp add: consistent_def)

lemma consistent_count:
  "consistent s \<Longrightarrow> blocks (heap_of s) a = Some b \<Longrightarrow> use_count b = owners a (handles s)"
  unfolding consistent_def by blast

lemma consistent_positive:
  "consistent s \<Longrightarrow> blocks (heap_of s) a = Some b \<Longrightarrow> 0 < use_count b"
  unfolding consistent_def by blast

lemma consistent_brk:
  "consistent s \<Longrightarrow> brk (heap_of s) \<le> a \<Longrightarrow> blocks (heap_of s) a = None"
  by (simp add: consistent_def)

lemma consistent_live:
  assumes "consistent s" and "w \<in> set (handles s)" and "ptr w = Some a"
  shows "\<exists>b. blocks (heap_of s) a = Some b"
proof (cases "blocks (heap_of s) a")
  case None
  with assms(1) have "owners a (handles s) = 0"
    by (rule consistent_free)
  with owners_pos [OF assms(2,3)] show ?thesis
    by simp
next
  case (Some b)
  then show ?thesis
    by blast
qed

lemma step_Construct_eq:
  "step (Construct t) s =
     \<lparr>heap_of = (heap_of s)\<lparr>blocks := (blocks (heap_of s))(brk (heap_of s) \<mapsto>
                     \<lparr>object = WrappingError_object (WrappingError t), use_count = 1\<rparr>),
                   brk := Suc (brk (heap_of s))\<rparr>,
      handles = handles s @ [\<lparr>ptr = Some (brk (heap_of s))\<rparr>]\<rparr>"
  by (simp add: ErrorWrapper_ctor_eq)

lemma consistent_Construct:
  assumes "consistent s"
  shows "consistent (step (Construct t) s)"
proof -
  have fresh: "blocks (heap_of s) (brk (heap_of s)) = None"
    using assms by (simp add: consistent_brk)
  with assms have none: "owners (brk (heap_of s)) (handles s) = 0"
    by (rule consistent_free)
  show ?thesis
    unfolding step_Construct_eq
    apply (rule consistentI)
    subgoal for a
      using consistent_free [OF assms, of a] by (auto simp: owners_append owners_single split: if_splits)
    subgoal for a b
      using consistent_count [OF assms, of a b] none by (auto simp: owners_append owners_single split: if_splits)
    subgoal for a b
      using consistent_positive [OF assms, of a b] by (auto split: if_splits)
    subgoal for a
      using consistent_brk [OF assms, of a] by auto
    done
qed


lemma step_Move_eq:
  "i < length (handles s) \<Longrightarrow>
   step (Move i) s =
     \<lparr>heap_of = heap_of s,
      handles = (handles s)[i := \<lparr>ptr = None\<rparr>] @ [\<lparr>ptr = ptr (handles s ! i)\<rparr>]\<rparr>"
  by (simp add: ErrorWrapper_move_eq)

lemma owners_Move:
  assumes "i < length ws"
  shows "owners a (ws[i := \<lparr>ptr = None\<rparr>] @ [\<lparr>ptr = ptr (ws ! i)\<rparr>]) = owners a ws"
  by (simp add: owners_append owners_update [OF assms] owners_split [OF assms, of a] owners_single)

lemma consistent_Move:
  assumes "consistent s"
  shows "consistent (step (Move i) s)"
proof (cases "i < length (handles s)")
  case True
  show ?thesis
    unfolding step_Move_eq [OF True]
    apply (rule consistentI)
    subgoal for a
      using consistent_free [OF assms, of a] by (simp add: owners_Move [OF True])
    subgoal for a b
      using consistent_count [OF assms, of a b] by (simp add: owners_Move [OF True])
    subgoal for a b
      using consistent_positive [OF assms, of a b] by simp
    subgoal for a
      using consistent_brk [OF assms, of a] by simp
    done
next
  case False
  with assms show ?thesis
    by simp
qed

lemma step_Copy_null:
  "i < length (handles s) \<Longrightarrow> ptr (handles s ! i) = None \<Longrightarrow>
   step (Copy i) s = \<lparr>heap_of = heap_of s, handles = handles s @ [\<lparr>ptr = None\<rparr>]\<rparr>"
  by (simp add: ErrorWrapper_copy_def shared_ptr_copy_def)

lemma step_Copy_live:
  "i < length (handles s) \<Longrightarrow> ptr (handles s ! i) = Some a \<Longrightarrow> blocks (heap_of s) a = Some b \<Longrightarrow>
   step (Copy i) s =
     \<lparr>heap_of = (heap_of s)\<lparr>blocks := (blocks (heap_of s))(a \<mapsto> b\<lparr>use_count := Suc (use_count b)\<rparr>)\<rparr>,
      handles = handles s @ [\<lparr>ptr = Some a\<rparr>]\<rparr>"
  by (simp add: ErrorWrapper_copy_def shared_ptr_copy_def)

lemma consistent_Copy:
  assumes "consistent s"
  shows "consistent (step (Copy i) s)"
proof (cases "i < length (handles s)")
  case True
  show ?thesis
  proof (cases "ptr (handles s ! i)")
    case None
    show ?thesis
      unfolding step_Copy_null [OF True None]
      apply (rule consistentI)
      subgoal for a
        using consistent_free [OF assms, of a] by (simp add: owners_append owners_single)
      subgoal for a b
        using consistent_count [OF assms, of a b] by (simp add: owners_append owners_single)
      subgoal for a b
        using consistent_positive [OF assms, of a b] by simp
      subgoal for a
        using consistent_brk [OF assms, of a] by simp
      done
  next
    case (Some a)
    from True have "handles s ! i \<in> set (handles s)"
      by simp
    from consistent_live [OF assms this Some] obtain b where b: "blocks (heap_of s) a = Some b"
      by blast
    show ?thesis
      unfolding step_Copy_live [OF True Some b]
      apply (rule consistentI)
      subgoal for a'
        using consistent_free [OF assms, of a']
        by (auto simp: owners_append owners_single split: if_splits)
      subgoal for a' b'
        using consistent_count [OF assms, of a' b'] consistent_count [OF assms b]
        by (auto simp: owners_append owners_single split: if_splits)
      subgoal for a' b'
        using consistent_positive [OF assms, of a' b']
        by (auto split: if_splits)
      subgoal for a'
        using consistent_brk [OF assms, of a'] b
        by auto
      done
  qed
next
  case False
  with assms show ?thesis
    by simp
qed

lemma owners_remove:
  assumes "i < length ws"
  shows "owners a (take i ws @ drop (Suc i) ws) + owners a [ws ! i] = owners a ws"
  by (simp add: owners_append owners_split [OF assms, of a])

lemma step_Destroy_null:
  "i < length (handles s) \<Longrightarrow> ptr (handles s ! i) = None \<Longrightarrow>
   step (Destroy i) s =
     \<lparr>heap_of = heap_of s, handles = take i (handles s) @ drop (Suc i) (handles s)\<rparr>"
  by (simp add: ErrorWrapper_dtor_def shared_ptr_dtor_def)

lemma step_Destroy_last:
  "i < length (handles s) \<Longrightarrow> ptr (handles s ! i) = Some a \<Longrightarrow> blocks (heap_of s) a = Some b \<Longrightarrow>
   use_count b \<le> 1 \<Longrightarrow>
   step (Destroy i) s =
     \<lparr>heap_of = (heap_of s)\<lparr>blocks := (blocks (heap_of s))(a := None)\<rparr>,
      handles = take i (handles s) @ drop (Suc i) (handles s)\<rparr>"
  by (simp add: ErrorWrapper_dtor_def shared_ptr_dtor_def)

lemma step_Destroy_shared:
  "i < length (handles s) \<Longrightarrow> ptr (handles s ! i) = Some a \<Longrightarrow> blocks (heap_of s) a = Some b \<Longrightarrow>
   \<not> use_count b \<le> 1 \<Longrightarrow>
   step (Destroy i) s =
     \<lparr>heap_of = (heap_of s)\<lparr>blocks := (blocks (heap_of s))(a \<mapsto> b\<lparr>use_count := use_count b - 1\<rparr>)\<rparr>,
      handles = take i (handles s) @ drop (Suc i) (handles s)\<rparr>"
  by (simp add: ErrorWrapper_dtor_def shared_ptr_dtor_def)

lemma consistent_Destroy:
  assumes "consistent s"
  shows "consistent (step (Destroy i) s)"
proof (cases "i < length (handles s)")
  case True
  note rem = owners_remove [OF True]
  show ?thesis
  proof (cases "ptr (handles s ! i)")
    case None
    show ?thesis
      unfolding step_Destroy_null [OF True None]
      apply (rule consistentI)
      subgoal for a
        using consistent_free [OF assms, of a] rem [of a] by (simp add: owners_single None)
      subgoal for a b
        using consistent_count [OF assms, of a b] rem [of a] by (simp add: owners_single None)
      subgoal for a b
        using consistent_positive [OF assms, of a b] by simp
      subgoal for a
        using consistent_brk [OF assms, of a] by simp
      done
  next
    case (Some a)
    from True have "handles s ! i \<in> set (handles s)"
      by simp
    from consistent_live [OF assms this Some] obtain b where b: "blocks (heap_of s) a = Some b"
      by blast
    note cnt = consistent_count [OF assms b]
    show ?thesis
    proof (cases "use_count b \<le> 1")
      case True
      show ?thesis
        unfolding step_Destroy_last [OF \<open>i < length (handles s)\<close> Some b True]
        apply (rule consistentI)
        subgoal for a'
          using consistent_free [OF assms, of a'] rem [of a'] cnt True
          by (auto simp: owners_single Some split: if_splits)
        subgoal for a' b'
          using consistent_count [OF assms, of a' b'] rem [of a']
          by (auto simp: owners_single Some split: if_splits)
        subgoal for a' b'
          using consistent_positive [OF assms, of a' b']
          by (auto split: if_splits)
        subgoal for a'
          using consistent_brk [OF assms, of a']
          by auto
        done
    next
      case False
      show ?thesis
        unfolding step_Destroy_shared [OF \<open>i < length (handles s)\<close> Some b False]
        apply (rule consistentI)
        subgoal for a'
          using consistent_free [OF assms, of a'] rem [of a']
          by (auto simp: owners_single Some split: if_splits)
        subgoal for a' b'
          using consistent_count [OF assms, of a' b'] rem [of a'] cnt
          by (auto simp: owners_single Some split: if_splits)
        subgoal for a' b'
          using consistent_positive [OF assms, of a' b'] False
          by (auto split: if_splits)
        subgoal for a'
          using consistent_brk [OF assms, of a'] b
          by auto
        done
    qed
  qed
next
  case False
  with assms show ?thesis
    by simp
qed

lemma consistent_step:
  assumes "consistent s"
  shows "consistent (step a s)"
proof (cases a)
  case (Construct t)
  with assms show ?thesis by (simp only: consistent_Construct)
next
  case (Copy i)
  with assms show ?thesis by (simp only: consistent_Copy)
next
  case (Move i)
  with assms show ?thesis by (simp only: consistent_Move)
next
  case (Destroy i)
  with assms show ?thesis by (simp only: consistent_Destroy)
next
  case (Call_MakeOptionalError t)
  with assms show ?thesis by (simp only: step_Call_MakeOptionalError consistent_Construct)
next
  case (Call_MakeError t)
  with assms show ?thesis by (simp only: step_Call_MakeError consistent_Construct)
next
  case (Call_MakeError_rvalue i)
  with assms show ?thesis by (simp only: step_Call_MakeError_rvalue consistent_Move)
next
  case (Call_MakeError_const_ref i)
  with assms show ?thesis by (simp only: step_Call_MakeError_const_ref consistent_Copy)
next
  case (Call_MakeResultError_rvalue i)
  with assms show ?thesis by (simp only: step_Call_MakeResultError_rvalue consistent_Move)
next
  case (Call_MakeResultError_const_ref i)
  with assms show ?thesis by (simp only: step_Call_MakeResultError_const_ref consistent_Copy)
qed

lemma consistent_run: "consistent s \<Longrightarrow> consistent (run s as)"
  by (induction as arbitrary: s) (simp_all add: consistent_step)

subsection \<open>Every handle of a program\<close>

lemma counted_of_consistent:
  assumes "consistent s"
  shows "counted (heap_of s) w"
  using consistent_positive [OF assms]
  by (auto simp: counted_def split: option.splits)

lemma step_Copy_handles:
  "i < length (handles s) \<Longrightarrow>
   step (Copy i) s =
     \<lparr>heap_of = snd (ErrorWrapper_copy (handles s ! i) (heap_of s)),
      handles = handles s @ [fst (ErrorWrapper_copy (handles s ! i) (heap_of s))]\<rparr>"
  by (simp add: case_prod_beta)

text \<open>
  C9. In every state that a program reaches, for every handle \<open>w\<close> it holds: after
  copying \<open>w\<close> and then destroying \<open>w\<close>, the copy has the pointer that \<open>w\<close> had, so the
  same block, and each of its five accessors returns what the accessor returned
  through \<open>w\<close> before.
\<close>

theorem copy_outlives_original:
  assumes "i < length (handles (run start as))"
  shows "(let s = run start as;
           s' = step (Destroy i) (step (Copy i) s);
           w = handles s ! i;
           c = last (handles s')
       in ptr c = ptr w
          \<and> ErrorWrapper_GetClassId Id_address (heap_of s') c = ErrorWrapper_GetClassId Id_address (heap_of s) w
          \<and> ErrorWrapper_operator_string (heap_of s') c = ErrorWrapper_operator_string (heap_of s) w
          \<and> ErrorWrapper_GetType (heap_of s') c = ErrorWrapper_GetType (heap_of s) w
          \<and> ErrorWrapper_GetDetails (heap_of s') c = ErrorWrapper_GetDetails (heap_of s) w
          \<and> ErrorWrapper_GetInfo (heap_of s') c = ErrorWrapper_GetInfo (heap_of s) w)"
proof -
  define s where "s = run start as"
  define w where "w = handles s ! i"
  define c where "c = fst (ErrorWrapper_copy w (heap_of s))"
  define h1 where "h1 = snd (ErrorWrapper_copy w (heap_of s))"
  have i: "i < length (handles s)"
    using assms by (simp add: s_def)
  have "consistent s"
    unfolding s_def by (rule consistent_run [OF consistent_start])
  then have cnt: "counted (heap_of s) w"
    by (rule counted_of_consistent)
  have copy: "step (Copy i) s = \<lparr>heap_of = h1, handles = handles s @ [c]\<rparr>"
    unfolding c_def h1_def w_def by (rule step_Copy_handles [OF i])
  have destroy: "step (Destroy i) (step (Copy i) s) =
      \<lparr>heap_of = ErrorWrapper_dtor w h1, handles = take i (handles s) @ drop (Suc i) (handles s) @ [c]\<rparr>"
    unfolding copy using i by (simp add: nth_append w_def)
  have eq: "ErrorWrapper_copy w (heap_of s) = (c, h1)"
    by (simp add: c_def h1_def)
  define s' where "s' = step (Destroy i) (step (Copy i) s)"
  have hp: "heap_of s' = ErrorWrapper_dtor w h1"
    by (simp only: s'_def destroy program.simps)
  have "handles s' = (take i (handles s) @ drop (Suc i) (handles s)) @ [c]"
    by (simp only: s'_def destroy program.simps append_assoc)
  then have lst: "last (handles s') = c"
    by (simp only: last_snoc)
  have "ptr c = ptr w
          \<and> ErrorWrapper_GetClassId Id_address (heap_of s') c = ErrorWrapper_GetClassId Id_address (heap_of s) w
          \<and> ErrorWrapper_operator_string (heap_of s') c = ErrorWrapper_operator_string (heap_of s) w
          \<and> ErrorWrapper_GetType (heap_of s') c = ErrorWrapper_GetType (heap_of s) w
          \<and> ErrorWrapper_GetDetails (heap_of s') c = ErrorWrapper_GetDetails (heap_of s) w
          \<and> ErrorWrapper_GetInfo (heap_of s') c = ErrorWrapper_GetInfo (heap_of s) w"
    using copy_then_dtor [OF cnt, of Id_address] by (simp add: eq hp)
  then show ?thesis
    by (simp only: Let_def s_def s'_def w_def lst [unfolded s'_def s_def])
qed

text \<open>The theorem at the one handle of a program that has constructed one.\<close>

theorem copy_outlives_original_witness:
  "0 < length (handles (run start [Construct (Error_object (Error_of_details ''disk full''))]))
   \<and> ErrorWrapper_GetDetails
        (heap_of (step (Destroy 0) (step (Copy 0)
           (run start [Construct (Error_object (Error_of_details ''disk full''))]))))
        (last (handles (step (Destroy 0) (step (Copy 0)
           (run start [Construct (Error_object (Error_of_details ''disk full''))])))))
      = Inr ''disk full''"
proof -
  have l: "0 < length (handles (run start [Construct (Error_object (Error_of_details ''disk full''))]))"
    by (simp add: ErrorWrapper_ctor_eq)
  have v: "ErrorWrapper_GetDetails
        (heap_of (run start [Construct (Error_object (Error_of_details ''disk full''))]))
        (handles (run start [Construct (Error_object (Error_of_details ''disk full''))]) ! 0)
      = Inr ''disk full''"
    by (simp add: ErrorWrapper_ctor_eq start_def ErrorWrapper_GetDetails_def dereference_def
        Error_GetDetails_def Error_of_details_def)
  from copy_outlives_original [OF l, of 0] v l show ?thesis
    by (simp only: Let_def)
qed

text \<open>
  A handle is constructed around an \<^verbatim>\<open>Error\<close> and moved, by the implicit move constructor
  or by passing it to \<^verbatim>\<open>MakeError(ErrorWrapper&&)\<close>. The source is left with a null
  pointer, and an accessor called on it goes through that null pointer.
\<close>

theorem moved_from_handle_is_null:
  "ptr (snd (ErrorWrapper_move
          (fst (ErrorWrapper_ctor (Error_object (Error_of_details ''disk full'')) (heap_of start)))))
     = None
   \<and> ptr (snd (MakeError_ErrorWrapper_rvalue
          (fst (ErrorWrapper_ctor (Error_object (Error_of_details ''disk full'')) (heap_of start)))))
     = None
   \<and> ErrorWrapper_GetClassId 4096
        (snd (ErrorWrapper_ctor (Error_object (Error_of_details ''disk full'')) (heap_of start)))
        (snd (MakeError_ErrorWrapper_rvalue
          (fst (ErrorWrapper_ctor (Error_object (Error_of_details ''disk full'')) (heap_of start)))))
     = Inl null_pointer
   \<and> handles (run start [Construct (Error_object (Error_of_details ''disk full'')),
                          Call_MakeError_rvalue 0]) ! 0 = \<lparr>ptr = None\<rparr>
   \<and> ErrorWrapper_GetDetails
        (heap_of (run start [Construct (Error_object (Error_of_details ''disk full'')),
                          Call_MakeError_rvalue 0]))
        (handles (run start [Construct (Error_object (Error_of_details ''disk full'')),
                          Call_MakeError_rvalue 0]) ! 0)
     = Inl null_pointer"
  by (simp add: ErrorWrapper_ctor_eq MakeError_ErrorWrapper_rvalue_def ErrorWrapper_move_eq
      accessor_defs dereference_def start_def)

lemma null_or_live_of_consistent:
  assumes "consistent s" and "w \<in> set (handles s)"
  shows "(case ptr w of
           None \<Rightarrow> ErrorWrapper_GetClassId Id_address (heap_of s) w = Inl null_pointer
         | Some a \<Rightarrow>
             (\<exists>x. dereference (heap_of s) (ptr w) = Inr x
                \<and> ErrorWrapper_GetClassId Id_address (heap_of s) w = Inr (GetClassId Id_address x)
                \<and> ErrorWrapper_operator_string (heap_of s) w = Inr (operator_string x)
                \<and> ErrorWrapper_GetType (heap_of s) w = Inr (GetType x)
                \<and> ErrorWrapper_GetDetails (heap_of s) w = Inr (GetDetails x)
                \<and> ErrorWrapper_GetInfo (heap_of s) w = Inr (GetInfo x)))"
proof (cases "ptr w")
  case None
  then show ?thesis
    by (simp add: ErrorWrapper_GetClassId_def dereference_def)
next
  case (Some a)
  from consistent_live [OF assms Some] obtain b where "blocks (heap_of s) a = Some b"
    by blast
  with Some show ?thesis
    by (simp add: accessor_defs dereference_def)
qed

lemma ErrorWrapper_copy_ptr: "ptr (fst (ErrorWrapper_copy w h)) = ptr w"
  by (simp add: ErrorWrapper_copy_def shared_ptr_copy_def split: option.splits)

lemma Copy_no_new_null:
  assumes "w \<in> set (handles (step (Copy i) s))" and "ptr w = None"
  shows "\<exists>w' \<in> set (handles s). ptr w' = None"
proof (cases "i < length (handles s)")
  case True
  from assms(1) have "w \<in> set (handles s) \<or> w = fst (ErrorWrapper_copy (handles s ! i) (heap_of s))"
    unfolding step_Copy_handles [OF True] by auto
  then show ?thesis
  proof
    assume "w \<in> set (handles s)"
    with assms(2) show ?thesis
      by blast
  next
    assume "w = fst (ErrorWrapper_copy (handles s ! i) (heap_of s))"
    with assms(2) have "ptr (handles s ! i) = None"
      by (simp add: ErrorWrapper_copy_ptr)
    moreover from True have "handles s ! i \<in> set (handles s)"
      by simp
    ultimately show ?thesis
      by blast
  qed
next
  case False
  with assms show ?thesis
    by auto
qed

lemma Construct_no_new_null:
  assumes "w \<in> set (handles (step (Construct t) s))" and "ptr w = None"
  shows "\<exists>w' \<in> set (handles s). ptr w' = None"
  using assms unfolding step_Construct_eq by auto

lemma Destroy_no_new_null:
  assumes "w \<in> set (handles (step (Destroy i) s))" and "ptr w = None"
  shows "\<exists>w' \<in> set (handles s). ptr w' = None"
proof (cases "i < length (handles s)")
  case True
  with assms(1) have "w \<in> set (take i (handles s)) \<or> w \<in> set (drop (Suc i) (handles s))"
    by simp
  then have "w \<in> set (handles s)"
    by (auto dest: in_set_takeD in_set_dropD)
  with assms(2) show ?thesis
    by blast
next
  case False
  with assms show ?thesis
    by auto
qed

lemma step_no_new_null:
  assumes "\<not> moves a" and "w \<in> set (handles (step a s))" and "ptr w = None"
  shows "\<exists>w' \<in> set (handles s). ptr w' = None"
proof (cases a)
  case (Construct t)
  with assms(2,3) show ?thesis by (simp only: Construct_no_new_null)
next
  case (Copy i)
  with assms(2,3) show ?thesis by (simp only: Copy_no_new_null)
next
  case (Move i)
  with assms(1) show ?thesis by simp
next
  case (Destroy i)
  with assms(2,3) show ?thesis by (simp only: Destroy_no_new_null)
next
  case (Call_MakeOptionalError e)
  with assms(2,3) show ?thesis
    by (simp only: step_Call_MakeOptionalError Construct_no_new_null)
next
  case (Call_MakeError e)
  with assms(2,3) show ?thesis
    by (simp only: step_Call_MakeError Construct_no_new_null)
next
  case (Call_MakeError_rvalue i)
  with assms(1) show ?thesis by simp
next
  case (Call_MakeError_const_ref i)
  with assms(2,3) show ?thesis
    by (simp only: step_Call_MakeError_const_ref Copy_no_new_null)
next
  case (Call_MakeResultError_rvalue i)
  with assms(1) show ?thesis by simp
next
  case (Call_MakeResultError_const_ref i)
  with assms(2,3) show ?thesis
    by (simp only: step_Call_MakeResultError_const_ref Copy_no_new_null)
qed

lemma run_without_moves:
  assumes "list_all (\<lambda>a. \<not> moves a) as" and "\<forall>w \<in> set (handles s). ptr w \<noteq> None"
  shows "\<forall>w \<in> set (handles (run s as)). ptr w \<noteq> None"
  using assms
proof (induction as arbitrary: s)
  case Nil
  then show ?case
    by simp
next
  case (Cons a as)
  from Cons.prems have "\<not> moves a" and rest: "list_all (\<lambda>a. \<not> moves a) as"
    by simp_all
  with Cons.prems(2) have "\<forall>w \<in> set (handles (step a s)). ptr w \<noteq> None"
    using step_no_new_null [of a _ s] by blast
  with rest have "\<forall>w \<in> set (handles (run (step a s) as)). ptr w \<noteq> None"
    by (rule Cons.IH)
  then show ?case
    by simp
qed

text \<open>
  C10, amended. A handle built by the template constructor holds a pointer that is not
  null, to the adapter allocated around the value. In a program that moves no handle,
  every handle holds a pointer that is not null, to a block that exists, and each of the
  five accessors returns what the member function of the object in that block returns.
  A move, by the implicit move constructor or by \<^verbatim>\<open>MakeError(ErrorWrapper&&)\<close> or
  \<^verbatim>\<open>MakeResultError(ErrorWrapper&&)\<close>, gives the new handle the pointer of its source
  and leaves the source, and no other handle, with a null pointer; a step that is not a
  move leaves a null handle only when there was one before it. In every program every
  handle either holds a null pointer, and then an accessor goes through the null
  pointer, or points to a block that exists, and then the five accessors return what
  the member functions of the object in that block return.
\<close>

theorem handles_null_or_live:
  "ptr (fst (ErrorWrapper_ctor t h)) \<noteq> None
   \<and> dereference (snd (ErrorWrapper_ctor t h)) (ptr (fst (ErrorWrapper_ctor t h)))
       = Inr (WrappingError_object (WrappingError_ctor t))
   \<and> ptr (snd (ErrorWrapper_move w0)) = None
   \<and> ptr (fst (ErrorWrapper_move w0)) = ptr w0
   \<and> (list_all (\<lambda>a. \<not> moves a) as \<longrightarrow>
        (\<forall>w \<in> set (handles (run start as)).
           ptr w \<noteq> None
           \<and> (\<exists>x. dereference (heap_of (run start as)) (ptr w) = Inr x
                \<and> ErrorWrapper_GetClassId Id_address (heap_of (run start as)) w = Inr (GetClassId Id_address x)
                \<and> ErrorWrapper_operator_string (heap_of (run start as)) w = Inr (operator_string x)
                \<and> ErrorWrapper_GetType (heap_of (run start as)) w = Inr (GetType x)
                \<and> ErrorWrapper_GetDetails (heap_of (run start as)) w = Inr (GetDetails x)
                \<and> ErrorWrapper_GetInfo (heap_of (run start as)) w = Inr (GetInfo x))))
   \<and> (i < length (handles s) \<longrightarrow>
        handles (step (Move i) s)
          = (handles s)[i := \<lparr>ptr = None\<rparr>] @ [\<lparr>ptr = ptr (handles s ! i)\<rparr>]
        \<and> step (Call_MakeError_rvalue i) s = step (Move i) s
        \<and> step (Call_MakeResultError_rvalue i) s = step (Move i) s)
   \<and> (\<not> moves act \<and> (\<exists>w \<in> set (handles (step act s)). ptr w = None) \<longrightarrow>
        (\<exists>w \<in> set (handles s). ptr w = None))
   \<and> (\<forall>w \<in> set (handles (run start as)).
        (case ptr w of
           None \<Rightarrow> ErrorWrapper_GetClassId Id_address (heap_of (run start as)) w = Inl null_pointer
         | Some a \<Rightarrow>
             (\<exists>x. dereference (heap_of (run start as)) (ptr w) = Inr x
                \<and> ErrorWrapper_GetClassId Id_address (heap_of (run start as)) w = Inr (GetClassId Id_address x)
                \<and> ErrorWrapper_operator_string (heap_of (run start as)) w = Inr (operator_string x)
                \<and> ErrorWrapper_GetType (heap_of (run start as)) w = Inr (GetType x)
                \<and> ErrorWrapper_GetDetails (heap_of (run start as)) w = Inr (GetDetails x)
                \<and> ErrorWrapper_GetInfo (heap_of (run start as)) w = Inr (GetInfo x))))"
proof -
  have inv: "consistent (run start as)"
    by (rule consistent_run [OF consistent_start])
  have all: "case ptr w of
           None \<Rightarrow> ErrorWrapper_GetClassId Id_address (heap_of (run start as)) w = Inl null_pointer
         | Some a \<Rightarrow>
             (\<exists>x. dereference (heap_of (run start as)) (ptr w) = Inr x
                \<and> ErrorWrapper_GetClassId Id_address (heap_of (run start as)) w = Inr (GetClassId Id_address x)
                \<and> ErrorWrapper_operator_string (heap_of (run start as)) w = Inr (operator_string x)
                \<and> ErrorWrapper_GetType (heap_of (run start as)) w = Inr (GetType x)
                \<and> ErrorWrapper_GetDetails (heap_of (run start as)) w = Inr (GetDetails x)
                \<and> ErrorWrapper_GetInfo (heap_of (run start as)) w = Inr (GetInfo x))"
    if "w \<in> set (handles (run start as))" for w
    using inv that by (rule null_or_live_of_consistent)
  have never: "ptr w \<noteq> None
           \<and> (\<exists>x. dereference (heap_of (run start as)) (ptr w) = Inr x
                \<and> ErrorWrapper_GetClassId Id_address (heap_of (run start as)) w = Inr (GetClassId Id_address x)
                \<and> ErrorWrapper_operator_string (heap_of (run start as)) w = Inr (operator_string x)
                \<and> ErrorWrapper_GetType (heap_of (run start as)) w = Inr (GetType x)
                \<and> ErrorWrapper_GetDetails (heap_of (run start as)) w = Inr (GetDetails x)
                \<and> ErrorWrapper_GetInfo (heap_of (run start as)) w = Inr (GetInfo x))"
    if nm: "list_all (\<lambda>a. \<not> moves a) as" and w: "w \<in> set (handles (run start as))" for w
  proof -
    have "\<forall>w \<in> set (handles start). ptr w \<noteq> None"
      by (simp add: start_def)
    with nm have "\<forall>w \<in> set (handles (run start as)). ptr w \<noteq> None"
      by (rule run_without_moves)
    with w obtain a where "ptr w = Some a"
      by auto
    with all [OF w] show ?thesis
      by simp
  qed
  have ctor: "ptr (fst (ErrorWrapper_ctor t h)) \<noteq> None
   \<and> dereference (snd (ErrorWrapper_ctor t h)) (ptr (fst (ErrorWrapper_ctor t h)))
       = Inr (WrappingError_object (WrappingError_ctor t))
   \<and> ptr (snd (ErrorWrapper_move w0)) = None
   \<and> ptr (fst (ErrorWrapper_move w0)) = ptr w0"
    by (simp add: ErrorWrapper_ctor_eq ErrorWrapper_move_eq dereference_def WrappingError_ctor_def)
  have move: "handles (step (Move i) s)
          = (handles s)[i := \<lparr>ptr = None\<rparr>] @ [\<lparr>ptr = ptr (handles s ! i)\<rparr>]
        \<and> step (Call_MakeError_rvalue i) s = step (Move i) s
        \<and> step (Call_MakeResultError_rvalue i) s = step (Move i) s"
    if "i < length (handles s)"
    by (simp only: step_Move_eq [OF that] step_Call_MakeError_rvalue
        step_Call_MakeResultError_rvalue program.simps simp_thms)
  have other: "\<exists>w \<in> set (handles s). ptr w = None"
    if "\<not> moves act" and "\<exists>w \<in> set (handles (step act s)). ptr w = None"
    using that step_no_new_null [of act _ s] by blast
  from ctor never move other all show ?thesis
    by blast
qed

text \<open>
  The theorem at two programs. The first constructs a handle, copies it and passes it to
  \<^verbatim>\<open>MakeError(const ErrorWrapper&)\<close>: it moves no handle, and its three handles are not
  null. The second constructs a handle and passes it to \<^verbatim>\<open>MakeError(ErrorWrapper&&)\<close>:
  the argument is left null and the handle in the result is not.
\<close>

theorem handles_null_or_live_witness:
  "list_all (\<lambda>a. \<not> moves a)
     [Construct (Error_object (Error_of_details ''disk full'')), Copy 0, Call_MakeError_const_ref 0]
   \<and> handles (run start
        [Construct (Error_object (Error_of_details ''disk full'')), Copy 0, Call_MakeError_const_ref 0])
      = [\<lparr>ptr = Some 0\<rparr>, \<lparr>ptr = Some 0\<rparr>, \<lparr>ptr = Some 0\<rparr>]
   \<and> \<not> isl (ErrorWrapper_GetClassId 4096
        (heap_of (run start
           [Construct (Error_object (Error_of_details ''disk full'')), Copy 0, Call_MakeError_const_ref 0]))
        \<lparr>ptr = Some 0\<rparr>)
   \<and> 0 < length (handles (run start [Construct (Error_object (Error_of_details ''disk full''))]))
   \<and> handles (step (Move 0) (run start [Construct (Error_object (Error_of_details ''disk full''))]))
      = [\<lparr>ptr = None\<rparr>, \<lparr>ptr = Some 0\<rparr>]
   \<and> handles (run start [Construct (Error_object (Error_of_details ''disk full'')),
                          Call_MakeError_rvalue 0])
      = [\<lparr>ptr = None\<rparr>, \<lparr>ptr = Some 0\<rparr>]
   \<and> isl (ErrorWrapper_GetClassId 4096 (heap_of (run start [Construct (Error_object (Error_of_details ''disk full'')),
                          Call_MakeError_rvalue 0])) \<lparr>ptr = None\<rparr>)
   \<and> \<not> isl (ErrorWrapper_GetClassId 4096 (heap_of (run start [Construct (Error_object (Error_of_details ''disk full'')),
                          Call_MakeError_rvalue 0])) \<lparr>ptr = Some 0\<rparr>)"
proof -
  define p where "p = [Construct (Error_object (Error_of_details ''disk full'')), Copy 0,
    Call_MakeError_const_ref 0]"
  define q where "q = run start [Construct (Error_object (Error_of_details ''disk full''))]"
  define s where "s = run start [Construct (Error_object (Error_of_details ''disk full'')),
                          Call_MakeError_rvalue 0]"
  have nm: "list_all (\<lambda>a. \<not> moves a) p"
    by (simp add: p_def)
  have hp: "handles (run start p) = [\<lparr>ptr = Some 0\<rparr>, \<lparr>ptr = Some 0\<rparr>, \<lparr>ptr = Some 0\<rparr>]"
    by (simp add: p_def ErrorWrapper_ctor_eq MakeError_ErrorWrapper_const_ref_def
        ErrorWrapper_copy_def shared_ptr_copy_def start_def)
  have "\<forall>w \<in> set (handles (run start p)).
           ptr w \<noteq> None
           \<and> (\<exists>x. dereference (heap_of (run start p)) (ptr w) = Inr x
                \<and> ErrorWrapper_GetClassId 4096 (heap_of (run start p)) w = Inr (GetClassId 4096 x)
                \<and> ErrorWrapper_operator_string (heap_of (run start p)) w = Inr (operator_string x)
                \<and> ErrorWrapper_GetType (heap_of (run start p)) w = Inr (GetType x)
                \<and> ErrorWrapper_GetDetails (heap_of (run start p)) w = Inr (GetDetails x)
                \<and> ErrorWrapper_GetInfo (heap_of (run start p)) w = Inr (GetInfo x))"
    using handles_null_or_live [of _ _ _ p 4096] nm by blast
  then have live: "\<not> isl (ErrorWrapper_GetClassId 4096 (heap_of (run start p)) \<lparr>ptr = Some 0\<rparr>)"
    by (auto simp add: hp)
  have lq: "0 < length (handles q)" and hq: "handles q = [\<lparr>ptr = Some 0\<rparr>]"
    by (simp_all add: q_def ErrorWrapper_ctor_eq start_def)
  have "handles (step (Move 0) q) = (handles q)[0 := \<lparr>ptr = None\<rparr>] @ [\<lparr>ptr = ptr (handles q ! 0)\<rparr>]"
    using handles_null_or_live [of _ _ _ _ _ 0 q] lq by blast
  then have mv: "handles (step (Move 0) q) = [\<lparr>ptr = None\<rparr>, \<lparr>ptr = Some 0\<rparr>]"
    by (simp add: hq)
  have hs: "handles s = [\<lparr>ptr = None\<rparr>, \<lparr>ptr = Some 0\<rparr>]"
    by (simp add: s_def ErrorWrapper_ctor_eq MakeError_ErrorWrapper_rvalue_def ErrorWrapper_move_eq start_def)
  have all: "\<forall>w \<in> set (handles s).
        (case ptr w of
           None \<Rightarrow> ErrorWrapper_GetClassId 4096 (heap_of s) w = Inl null_pointer
         | Some a \<Rightarrow>
             (\<exists>x. dereference (heap_of s) (ptr w) = Inr x
                \<and> ErrorWrapper_GetClassId 4096 (heap_of s) w = Inr (GetClassId 4096 x)
                \<and> ErrorWrapper_operator_string (heap_of s) w = Inr (operator_string x)
                \<and> ErrorWrapper_GetType (heap_of s) w = Inr (GetType x)
                \<and> ErrorWrapper_GetDetails (heap_of s) w = Inr (GetDetails x)
                \<and> ErrorWrapper_GetInfo (heap_of s) w = Inr (GetInfo x)))"
    unfolding s_def using handles_null_or_live by blast
  have n1: "isl (ErrorWrapper_GetClassId 4096 (heap_of s) \<lparr>ptr = None\<rparr>)"
    using all by (simp add: hs)
  have n2: "\<not> isl (ErrorWrapper_GetClassId 4096 (heap_of s) \<lparr>ptr = Some 0\<rparr>)"
    using all by (auto simp add: hs)
  from nm hp live lq mv hs n1 n2 show ?thesis
    unfolding p_def q_def s_def by blast
qed

end
